theory Spec2Isabelle
  imports Main "HOL-Library.Word"
begin

section \<open>Values of stored documents\<close>

text \<open>
  The values that occur in a document of the store, as the Python code sees them.
  A \<open>str\<close> is kept as the bytes of its UTF-8 encoding (one \<open>char\<close> per byte), a
  \<open>float\<close> as the 64 bits of its IEEE double, a \<open>datetime\<close> as microseconds since the
  epoch. \<open>bytes\<close> and bson's \<open>Binary\<close> are separate constructors: \<open>Binary\<close> is a
  subclass of \<open>bytes\<close>, so \<open>isinstance(v, bytes)\<close> holds for both and
  \<open>isinstance(v, Binary)\<close> for the second only. \<open>bytearray\<close> is the one other type
  with a \<open>decode\<close> method. A \<open>dict\<close> is an association list in insertion order.
\<close>

type_synonym byte = "8 word"

datatype pyval =
    PNone
  | PBool bool
  | PInt int
  | PFloat "64 word"
  | PStr string
  | PBytes "byte list"
  | PBinary "byte list"
  | PByteArray "byte list"
  | PObjectId "byte list"
  | PDatetime int
  | PDict "(string \<times> pyval) list"
  | PList "pyval list"

type_synonym doc = "(string \<times> pyval) list"

subsection \<open>Library functions the normalisation uses\<close>

text \<open>\<open>base64.b64encode\<close>: the standard alphabet, three bytes to four characters,
  padded with \<open>=\<close>.\<close>

definition b64_alphabet :: string where
  "b64_alphabet = ''ABCDEFGHIJKLMNOPQRSTUVWXYZabcdefghijklmnopqrstuvwxyz0123456789+/''"

definition b64_char :: "nat \<Rightarrow> char" where
  "b64_char n = b64_alphabet ! (n mod 64)"

fun b64encode :: "byte list \<Rightarrow> string" where
  "b64encode [] = []"
| "b64encode [a] =
     (let n = unat a * 65536
      in [b64_char (n div 262144), b64_char (n div 4096), CHR ''='', CHR ''=''])"
| "b64encode [a, b] =
     (let n = unat a * 65536 + unat b * 256
      in [b64_char (n div 262144), b64_char (n div 4096), b64_char (n div 64), CHR ''=''])"
| "b64encode (a # b # c # rest) =
     (let n = unat a * 65536 + unat b * 256 + unat c
      in [b64_char (n div 262144), b64_char (n div 4096), b64_char (n div 64), b64_char n]
         @ b64encode rest)"

text \<open>\<open>bytes.decode('utf-8')\<close> in strict mode: the well-formed byte sequences of the
  Unicode standard (no overlong forms, no surrogates, nothing above U+10FFFF). Anything
  else raises \<open>UnicodeDecodeError\<close>.\<close>

definition is_cont :: "byte \<Rightarrow> bool" where
  "is_cont b = (0x80 \<le> b \<and> b \<le> 0xBF)"

fun utf8_valid :: "byte list \<Rightarrow> bool" where
  "utf8_valid [] = True"
| "utf8_valid (b0 # bs) =
     (if b0 < 0x80 then utf8_valid bs
      else if 0xC2 \<le> b0 \<and> b0 \<le> 0xDF then
        (case bs of b1 # r \<Rightarrow> is_cont b1 \<and> utf8_valid r | _ \<Rightarrow> False)
      else if 0xE0 \<le> b0 \<and> b0 \<le> 0xEF then
        (case bs of
           b1 # b2 # r \<Rightarrow>
             is_cont b1 \<and> is_cont b2
             \<and> (b0 = 0xE0 \<longrightarrow> 0xA0 \<le> b1)
             \<and> (b0 = 0xED \<longrightarrow> b1 \<le> 0x9F)
             \<and> utf8_valid r
         | _ \<Rightarrow> False)
      else if 0xF0 \<le> b0 \<and> b0 \<le> 0xF4 then
        (case bs of
           b1 # b2 # b3 # r \<Rightarrow>
             is_cont b1 \<and> is_cont b2 \<and> is_cont b3
             \<and> (b0 = 0xF0 \<longrightarrow> 0x90 \<le> b1)
             \<and> (b0 = 0xF4 \<longrightarrow> b1 \<le> 0x8F)
             \<and> utf8_valid r
         | _ \<Rightarrow> False)
      else False)"

definition char_of_byte :: "byte \<Rightarrow> char" where
  "char_of_byte b = char_of (unat b)"

definition decode_utf8 :: "byte list \<Rightarrow> string option" where
  "decode_utf8 bs = (if utf8_valid bs then Some (map char_of_byte bs) else None)"

text \<open>\<open>str(ObjectId)\<close>: the bytes of the identifier as lowercase hexadecimal, two
  digits a byte.\<close>

definition hex_digit :: "nat \<Rightarrow> char" where
  "hex_digit n = ''0123456789abcdef'' ! (n mod 16)"

definition hex_byte :: "byte \<Rightarrow> string" where
  "hex_byte b = [hex_digit (unat b div 16), hex_digit (unat b)]"

definition objectid_str :: "byte list \<Rightarrow> string" where
  "objectid_str oid = concat (map hex_byte oid)"

section \<open>The normalisation layer of admin.py\<close>

text \<open>
  \<^verbatim>\<open>
  def handle_non_utf8(value):
      if isinstance(value, bytes):
          return base64.b64encode(value).decode('utf-8')
      try:
          return value.decode('utf-8')
      except (UnicodeDecodeError, AttributeError):
          return value
  \<close>
  The first test takes every \<open>bytes\<close> and \<open>Binary\<close> value. Of the other values only a
  \<open>bytearray\<close> has a \<open>decode\<close> method; all the rest raise \<open>AttributeError\<close> and come
  back unchanged.
\<close>

fun handle_non_utf8 :: "pyval \<Rightarrow> pyval" where
  "handle_non_utf8 (PBytes b) = PStr (b64encode b)"
| "handle_non_utf8 (PBinary b) = PStr (b64encode b)"
| "handle_non_utf8 (PByteArray b) =
     (case decode_utf8 b of Some s \<Rightarrow> PStr s | None \<Rightarrow> PByteArray b)"
| "handle_non_utf8 value = value"

text \<open>
  \<^verbatim>\<open>
  def convert_objectid_to_str(obj):
      if isinstance(obj, dict):
          return {key: convert_objectid_to_str(value) if isinstance(value, (dict, list))
                       else str(value) if isinstance(value, ObjectId)
                       else handle_non_utf8(value)
                  for key, value in obj.items()}
      elif isinstance(obj, list):
          return [convert_objectid_to_str(item) for item in obj]
      else:
          return handle_non_utf8(obj)
  \<close>
\<close>

fun convert_objectid_to_str :: "pyval \<Rightarrow> pyval" where
  "convert_objectid_to_str (PDict kvs) =
     PDict (map (\<lambda>kv. (fst kv,
                  (case snd kv of
                     PDict d \<Rightarrow> convert_objectid_to_str (snd kv)
                   | PList l \<Rightarrow> convert_objectid_to_str (snd kv)
                   | PObjectId oid \<Rightarrow> PStr (objectid_str oid)
                   | _ \<Rightarrow> handle_non_utf8 (snd kv)))) kvs)"
| "convert_objectid_to_str (PList xs) = PList (map convert_objectid_to_str xs)"
| "convert_objectid_to_str obj = handle_non_utf8 obj"

section \<open>The document store\<close>

text \<open>
  The store the driver talks to: the documents of each collection in storage order, the
  supply of fresh identifiers, whether writes are acknowledged (the write concern of the
  client), and the outcome of the driver calls still to come: \<open>faults\<close> holds one flag for
  each coming call, \<open>True\<close> when that call raises (connection lost, malformed query); when
  the list is used up no call raises. \<open>calls\<close> records every operation sent to the driver
  and its collection.
\<close>

datatype exn =
  HTTPException nat string | RequestValidationError | AttributeError | TypeError | DriverError

datatype insert_result = InsertOneResult (inserted_id: pyval) (acknowledged: bool)

record store =
  colls :: "string \<Rightarrow> doc list"
  next_oid :: nat
  acked :: bool
  faults :: "bool list"
  calls :: "(string \<times> string) list"

definition raises :: "store \<Rightarrow> bool" where
  "raises st = (case faults st of [] \<Rightarrow> False | f # _ \<Rightarrow> f)"

definition enter :: "store \<Rightarrow> string \<Rightarrow> string \<Rightarrow> store" where
  "enter st operation c = st\<lparr>faults := drop 1 (faults st), calls := calls st @ [(operation, c)]\<rparr>"

text \<open>A query is a conjunction of equalities on top-level fields.\<close>

definition matches :: "doc \<Rightarrow> doc \<Rightarrow> bool" where
  "matches query d = list_all (\<lambda>kv. map_of d (fst kv) = Some (snd kv)) query"

fun dict_set :: "string \<Rightarrow> 'v \<Rightarrow> (string \<times> 'v) list \<Rightarrow> (string \<times> 'v) list" where
  "dict_set k v [] = [(k, v)]"
| "dict_set k v (kv # d) = (if fst kv = k then (k, v) # d else kv # dict_set k v d)"

definition apply_set :: "doc \<Rightarrow> doc \<Rightarrow> doc" where
  "apply_set update_data d = foldl (\<lambda>acc kv. dict_set (fst kv) (snd kv) acc) d update_data"

fun update_first :: "doc \<Rightarrow> doc \<Rightarrow> doc list \<Rightarrow> doc list \<times> int" where
  "update_first query update_data [] = ([], 0)"
| "update_first query update_data (d # ds) =
     (if matches query d then
        (let d' = apply_set update_data d in (d' # ds, if d' = d then 0 else 1))
      else (case update_first query update_data ds of (ds', n) \<Rightarrow> (d # ds', n)))"

fun delete_first :: "doc \<Rightarrow> doc list \<Rightarrow> doc list \<times> int" where
  "delete_first query [] = ([], 0)"
| "delete_first query (d # ds) =
     (if matches query d then (ds, 1)
      else (case delete_first query ds of (ds', n) \<Rightarrow> (d # ds', n)))"

definition fresh_oid :: "nat \<Rightarrow> byte list" where
  "fresh_oid n = map (\<lambda>i. of_nat (n div 256 ^ (11 - i))) [0..<12]"

subsection \<open>The driver's collection operations\<close>

text \<open>\<open>collection.insert_one(document)\<close>: a document without \<open>_id\<close> gets a fresh
  identifier; \<open>_id\<close> is the only key the store keeps unique.\<close>

definition coll_insert_one :: "store \<Rightarrow> string \<Rightarrow> doc \<Rightarrow> (exn + insert_result) \<times> store" where
  "coll_insert_one st c document =
     (let st1 = enter st ''insert_one'' c in
      if raises st then (Inl DriverError, st1)
      else (case map_of document ''_id'' of
              None \<Rightarrow>
                (let oid = PObjectId (fresh_oid (next_oid st1));
                     d = document @ [(''_id'', oid)]
                 in (Inr (InsertOneResult oid (acked st1)),
                     st1\<lparr>colls := (colls st1)(c := colls st1 c @ [d]),
                         next_oid := Suc (next_oid st1)\<rparr>))
            | Some i \<Rightarrow>
                if list_ex (\<lambda>d. map_of d ''_id'' = Some i) (colls st1 c)
                then (Inl DriverError, st1)
                else (Inr (InsertOneResult i (acked st1)),
                      st1\<lparr>colls := (colls st1)(c := colls st1 c @ [document])\<rparr>)))"

definition coll_find_one :: "store \<Rightarrow> string \<Rightarrow> doc \<Rightarrow> (exn + doc option) \<times> store" where
  "coll_find_one st c query =
     (let st1 = enter st ''find_one'' c in
      if raises st then (Inl DriverError, st1)
      else (Inr (find (matches query) (colls st1 c)), st1))"

text \<open>\<open>collection.update_one(query, {"$set": update_data})\<close>; the result carries
  \<open>modified_count\<close>.\<close>

definition coll_update_one :: "store \<Rightarrow> string \<Rightarrow> doc \<Rightarrow> doc \<Rightarrow> (exn + int) \<times> store" where
  "coll_update_one st c query update_data =
     (let st1 = enter st ''update_one'' c in
      if raises st then (Inl DriverError, st1)
      else (case update_first query update_data (colls st1 c) of
              (ds', n) \<Rightarrow> (Inr n, st1\<lparr>colls := (colls st1)(c := ds')\<rparr>)))"

text \<open>\<open>collection.delete_one(query)\<close>; the result carries \<open>deleted_count\<close>.\<close>

definition coll_delete_one :: "store \<Rightarrow> string \<Rightarrow> doc \<Rightarrow> (exn + int) \<times> store" where
  "coll_delete_one st c query =
     (let st1 = enter st ''delete_one'' c in
      if raises st then (Inl DriverError, st1)
      else (case delete_first query (colls st1 c) of
              (ds', n) \<Rightarrow> (Inr n, st1\<lparr>colls := (colls st1)(c := ds')\<rparr>)))"

text \<open>\<open>collection.find().to_list(length=n)\<close>.\<close>

definition coll_find_to_list :: "store \<Rightarrow> string \<Rightarrow> nat \<Rightarrow> (exn + doc list) \<times> store" where
  "coll_find_to_list st c n =
     (let st1 = enter st ''find'' c in
      if raises st then (Inl DriverError, st1)
      else (Inr (take n (colls st1 c)), st1))"

section \<open>The adapter: class Database of admin.py\<close>

text \<open>
  \<^verbatim>\<open>
  async def insert_one(self, collection_name, document):
      try:
          collection = self.db[collection_name]
          result = await collection.insert_one(document)
          return result
      except Exception as e:
          raise HTTPException(status_code=500, detail="Internal Server Error")
  \<close>
\<close>

definition insert_one :: "store \<Rightarrow> string \<Rightarrow> doc \<Rightarrow> (exn + insert_result) \<times> store" where
  "insert_one st collection_name document =
     (case coll_insert_one st collection_name document of
        (Inr result, st') \<Rightarrow> (Inr result, st')
      | (Inl e, st') \<Rightarrow> (Inl (HTTPException 500 ''Internal Server Error''), st'))"

text \<open>
  \<^verbatim>\<open>
  async def find_one(self, collection_name, query):
      try:
          collection = self.db[collection_name]
          document = await collection.find_one(query)
          return convert_objectid_to_str(document) if document else None
      except Exception as e:
          return None
  \<close>
\<close>

definition find_one :: "store \<Rightarrow> string \<Rightarrow> doc \<Rightarrow> pyval option \<times> store" where
  "find_one st collection_name query =
     (case coll_find_one st collection_name query of
        (Inr document, st') \<Rightarrow>
          ((case document of
              Some d \<Rightarrow> if d \<noteq> [] then Some (convert_objectid_to_str (PDict d)) else None
            | None \<Rightarrow> None), st')
      | (Inl e, st') \<Rightarrow> (None, st'))"

text \<open>
  \<^verbatim>\<open>
  async def update_one(self, collection_name, query, update_data):
      try:
          collection = self.db[collection_name]
          result = await collection.update_one(query, {"$set": update_data})
          return {"modified_count": result.modified_count}
      except Exception as e:
          return {}
  \<close>
  and \<open>delete_one\<close> likewise, with \<open>deleted_count\<close>.
\<close>

definition update_one :: "store \<Rightarrow> string \<Rightarrow> doc \<Rightarrow> doc \<Rightarrow> (string \<times> int) list \<times> store" where
  "update_one st collection_name query update_data =
     (case coll_update_one st collection_name query update_data of
        (Inr modified_count, st') \<Rightarrow> ([(''modified_count'', modified_count)], st')
      | (Inl e, st') \<Rightarrow> ([], st'))"

definition delete_one :: "store \<Rightarrow> string \<Rightarrow> doc \<Rightarrow> (string \<times> int) list \<times> store" where
  "delete_one st collection_name query =
     (case coll_delete_one st collection_name query of
        (Inr deleted_count, st') \<Rightarrow> ([(''deleted_count'', deleted_count)], st')
      | (Inl e, st') \<Rightarrow> ([], st'))"

section \<open>The entity schemas\<close>

text \<open>
  An instance of a pydantic model: the value of every declared field, in declaration
  order, and the names of the fields that were given explicitly (\<open>model_fields_set\<close>).
  \<open>m.dict()\<close> is the first; \<open>m.dict(exclude_unset=True)\<close> keeps the fields that were
  given.
\<close>

record model =
  field_values :: doc
  fields_set :: "string list"

definition model_dict :: "model \<Rightarrow> doc" where
  "model_dict m = field_values m"

definition model_dict_exclude_unset :: "model \<Rightarrow> doc" where
  "model_dict_exclude_unset m = filter (\<lambda>kv. fst kv \<in> set (fields_set m)) (field_values m)"

definition getattr :: "model \<Rightarrow> string \<Rightarrow> exn + pyval" where
  "getattr m k = (case map_of (field_values m) k of Some v \<Rightarrow> Inr v | None \<Rightarrow> Inl AttributeError)"

definition setattr :: "model \<Rightarrow> string \<Rightarrow> pyval \<Rightarrow> model" where
  "setattr m k v =
     m\<lparr>field_values := dict_set k v (field_values m),
       fields_set := (if k \<in> set (fields_set m) then fields_set m else fields_set m @ [k])\<rparr>"

text \<open>Python's truth value of an object, as \<open>if x:\<close> and \<open>not x\<close> read it.\<close>

fun truthy :: "pyval \<Rightarrow> bool" where
  "truthy PNone = False"
| "truthy (PBool b) = b"
| "truthy (PInt i) = (i \<noteq> 0)"
| "truthy (PFloat w) = (w \<noteq> 0 \<and> w \<noteq> 0x8000000000000000)"
| "truthy (PStr s) = (s \<noteq> [])"
| "truthy (PBytes b) = (b \<noteq> [])"
| "truthy (PBinary b) = (b \<noteq> [])"
| "truthy (PByteArray b) = (b \<noteq> [])"
| "truthy (PObjectId oid) = True"
| "truthy (PDatetime t) = True"
| "truthy (PDict d) = (d \<noteq> [])"
| "truthy (PList xs) = (xs \<noteq> [])"

text \<open>
  A field declaration is the field's name and its default, if it has one. The classes of
  admin.py, field by field (an \<open>Optional[str]\<close> without a default is a required field):
\<close>

type_synonym field_decl = "string \<times> pyval option"


definition Branch_fields :: "field_decl list" where
  "Branch_fields =
     [(''branch_id'', None), (''branch_name'', None), (''branch_email'', None),
      (''branch_phone'', None), (''branch_website'', None), (''branch_desc'', None),
      (''branch_added'', Some PNone), (''branch_active'', None),
      (''restaurants_id'', None), (''address_id'', None)]"

definition Order_fields :: "field_decl list" where
  "Order_fields =
     [(''order_id'', None), (''customer'', None), (''order_type'', None), (''store'', None),
      (''items'', None), (''total_price'', None), (''payment_method'', None),
      (''order_status'', None), (''order_date'', None)]"



text \<open>
  What the framework does with a request body before the handler runs: every declared
  field is looked up in the payload and checked against its type; a field that is absent
  takes its default or, having none, fails the request; keys of the payload that the
  class does not declare are dropped. The type check and coercion of a single field is
  the library's and is the parameter \<open>coerce\<close> (\<open>None\<close>: the value is rejected).
\<close>

fun validate_fields ::
  "(string \<Rightarrow> pyval \<Rightarrow> pyval option) \<Rightarrow> field_decl list \<Rightarrow> doc \<Rightarrow> exn + model" where
  "validate_fields coerce [] payload = Inr \<lparr>field_values = [], fields_set = []\<rparr>"
| "validate_fields coerce (decl # decls) payload =
     (case validate_fields coerce decls payload of
        Inl e \<Rightarrow> Inl e
      | Inr m \<Rightarrow>
          (case map_of payload (fst decl) of
             Some v \<Rightarrow>
               (case coerce (fst decl) v of
                  Some v' \<Rightarrow> Inr \<lparr>field_values = (fst decl, v') # field_values m,
                                 fields_set = fst decl # fields_set m\<rparr>
                | None \<Rightarrow> Inl RequestValidationError)
           | None \<Rightarrow>
               (case snd decl of
                  Some dv \<Rightarrow> Inr \<lparr>field_values = (fst decl, dv) # field_values m,
                                 fields_set = fields_set m\<rparr>
                | None \<Rightarrow> Inl RequestValidationError)))"

definition is_instance :: "field_decl list \<Rightarrow> model \<Rightarrow> bool" where
  "is_instance decls m =
     (map fst (field_values m) = map fst decls \<and> list_all (\<lambda>k. k \<in> set (map fst decls)) (fields_set m))"

subsection \<open>The validators of class Order\<close>

text \<open>\<open>base64.b64decode(s)\<close> of a \<open>str\<close>, which the second validator names, as the
  interpreter's decoder works without validation: a non-ASCII string is refused, characters outside the alphabet are skipped,
  a complete padding ends the input, and an incomplete last group raises.\<close>

definition b64_value :: "char \<Rightarrow> nat option" where
  "b64_value c =
     (let n = (of_char c :: nat) in
      if 65 \<le> n \<and> n \<le> 90 then Some (n - 65)
      else if 97 \<le> n \<and> n \<le> 122 then Some (n - 71)
      else if 48 \<le> n \<and> n \<le> 57 then Some (n + 4)
      else if n = 43 then Some 62
      else if n = 47 then Some 63
      else None)"

fun a2b_base64 :: "nat \<Rightarrow> nat \<Rightarrow> nat \<Rightarrow> byte list \<Rightarrow> string \<Rightarrow> byte list option" where
  "a2b_base64 quad_pos leftchar pads out [] = (if quad_pos \<noteq> 0 then None else Some out)"
| "a2b_base64 quad_pos leftchar pads out (ch # rest) =
     (if ch = CHR ''='' then
        (if 2 \<le> quad_pos \<and> 4 \<le> quad_pos + (pads + 1) then Some out
         else a2b_base64 quad_pos leftchar (if 2 \<le> quad_pos then pads + 1 else pads) out rest)
      else
        (case b64_value ch of
           None \<Rightarrow> a2b_base64 quad_pos leftchar pads out rest
         | Some v \<Rightarrow>
             if quad_pos = 0 then a2b_base64 1 v 0 out rest
             else if quad_pos = 1 then
               a2b_base64 2 (v mod 16) 0 (out @ [of_nat (leftchar * 4 + v div 16)]) rest
             else if quad_pos = 2 then
               a2b_base64 3 (v mod 4) 0 (out @ [of_nat (leftchar * 16 + v div 4)]) rest
             else a2b_base64 0 0 0 (out @ [of_nat (leftchar * 64 + v)]) rest))"

definition b64decode :: "string \<Rightarrow> byte list option" where
  "b64decode s =
     (if list_all (\<lambda>c. (of_char c :: nat) < 128) s then a2b_base64 0 0 0 [] s else None)"

text \<open>
  \<^verbatim>\<open>
  @model_validator(mode='before')
  def convert_binary_fields_to_base64(cls, values):
      if 'restaurants_id' in values and isinstance(values['restaurants_id'], Binary):
          values['restaurants_id'] = base64.b64encode(values['restaurants_id']).decode('utf-8')
      if 'address_id' in values and isinstance(values['address_id'], Binary):
          values['address_id'] = base64.b64encode(values['address_id']).decode('utf-8')
      return values
  \<close>
  It runs on the raw payload, before the fields are read.
\<close>

definition binary_field_to_base64 :: "string \<Rightarrow> doc \<Rightarrow> doc" where
  "binary_field_to_base64 name values =
     (case map_of values name of
        Some (PBinary b) \<Rightarrow> dict_set name (PStr (b64encode b)) values
      | _ \<Rightarrow> values)"

definition convert_binary_fields_to_base64 :: "doc \<Rightarrow> doc" where
  "convert_binary_fields_to_base64 values =
     binary_field_to_base64 ''address_id'' (binary_field_to_base64 ''restaurants_id'' values)"

text \<open>
  \<^verbatim>\<open>
  @model_validator(mode='after')
  def convert_base64_to_binary(cls, values):
      if 'restaurants_id' in values and isinstance(values['restaurants_id'], str):
          values['restaurants_id'] = Binary(base64.b64decode(values['restaurants_id']))
      if 'address_id' in values and isinstance(values['address_id'], str):
          values['address_id'] = Binary(base64.b64decode(values['address_id']))
      return values
  \<close>
  It runs on the validated instance, which is not a dict. \<open>name in values\<close> iterates
  the instance; that yields the pairs (field name, value), and the test compares the
  string \<open>name\<close> with each pair. Only if it held would \<open>values[name]\<close> be evaluated,
  and an instance has no subscript: \<open>TypeError\<close>. Otherwise nothing is done.
\<close>

definition model_items :: "model \<Rightarrow> (string + string \<times> pyval) list" where
  "model_items values = map Inr (field_values values)"

definition base64_field_to_binary :: "string \<Rightarrow> model \<Rightarrow> exn + model" where
  "base64_field_to_binary name values =
     (if Inl name \<in> set (model_items values) then Inl TypeError else Inr values)"

definition convert_base64_to_binary :: "model \<Rightarrow> exn + model" where
  "convert_base64_to_binary values =
     (case base64_field_to_binary ''restaurants_id'' values of
        Inl e \<Rightarrow> Inl e
      | Inr values' \<Rightarrow> base64_field_to_binary ''address_id'' values')"

definition Order_validate :: "(string \<Rightarrow> pyval \<Rightarrow> pyval option) \<Rightarrow> doc \<Rightarrow> exn + model" where
  "Order_validate coerce payload =
     (case validate_fields coerce Order_fields (convert_binary_fields_to_base64 payload) of
        Inl e \<Rightarrow> Inl e
      | Inr order \<Rightarrow> convert_base64_to_binary order)"

section \<open>The endpoints of admin.py\<close>

text \<open>
  The five entity kinds have the same five handlers, which differ in the collection, the
  key field, the messages and the status codes. Each shape is written once, after the
  Branch handler, and every handler of the source is an instance of it with its own
  strings and codes.
\<close>

text \<open>\<open>result and result.get(key, 0) > 0\<close> on the mapping an adapter method returns.\<close>

definition count_positive :: "(string \<times> int) list \<Rightarrow> string \<Rightarrow> bool" where
  "count_positive result key =
     (result \<noteq> [] \<and> 0 < (case map_of result key of Some n \<Rightarrow> n | None \<Rightarrow> 0))"

text \<open>
  \<^verbatim>\<open>
  branch_data = branch.dict()
  result = await db.insert_one("Branch", branch_data)
  if result.acknowledged:
      return {"message": "Branch created successfully", "branch_id": branch.branch_id}
  raise HTTPException(status_code=400, detail="Failed to create branch")
  \<close>
\<close>

definition create_entity ::
  "string \<Rightarrow> string \<Rightarrow> string \<Rightarrow> string \<Rightarrow> string \<Rightarrow> store \<Rightarrow> model \<Rightarrow> (exn + pyval) \<times> store" where
  "create_entity collection_name created id_key id_attr failed st m =
     (case insert_one st collection_name (model_dict m) of
        (Inl e, st') \<Rightarrow> (Inl e, st')
      | (Inr result, st') \<Rightarrow>
          if acknowledged result then
            (case getattr m id_attr of
               Inr v \<Rightarrow> (Inr (PDict [(''message'', PStr created), (id_key, v)]), st')
             | Inl e \<Rightarrow> (Inl e, st'))
          else (Inl (HTTPException 400 failed), st'))"

text \<open>
  \<^verbatim>\<open>
  if not branch.branch_added:
      branch.branch_added = datetime.datetime.now()
  \<close>
  comes first in \<open>create_branch\<close> and \<open>create_restaurants\<close>; \<open>now\<close> is the clock's
  reading.
\<close>

definition stamp_added :: "string \<Rightarrow> int \<Rightarrow> model \<Rightarrow> exn + model" where
  "stamp_added added_attr now m =
     (case getattr m added_attr of
        Inl e \<Rightarrow> Inl e
      | Inr added \<Rightarrow> Inr (if \<not> truthy added then setattr m added_attr (PDatetime now) else m))"

text \<open>
  \<^verbatim>\<open>
  result = await db.find_one("Branch", {"branch_id": branch_id})
  if result:
      return result
  raise HTTPException(status_code=404, detail="Branch not found")
  \<close>
\<close>

definition get_entity ::
  "string \<Rightarrow> string \<Rightarrow> string \<Rightarrow> store \<Rightarrow> pyval \<Rightarrow> (exn + pyval) \<times> store" where
  "get_entity collection_name key_field not_found st key =
     (case find_one st collection_name [(key_field, key)] of
        (Some result, st') \<Rightarrow>
          if truthy result then (Inr result, st')
          else (Inl (HTTPException 404 not_found), st')
      | (None, st') \<Rightarrow> (Inl (HTTPException 404 not_found), st'))"

text \<open>
  \<^verbatim>\<open>
  branch_dict = branch.dict(exclude_unset=True)
  if not branch_dict:
      raise HTTPException(status_code=400, detail="No data provided to update")
  result = await db.update_one("Branch", {"branch_id": branch_id}, branch_dict)
  if result and result.get("modified_count", 0) > 0:
      return {"message": "Branch updated successfully"}
  raise HTTPException(status_code=400, detail="Failed to update branch")
  \<close>
\<close>

definition update_response :: "string \<Rightarrow> nat \<Rightarrow> string \<Rightarrow> (string \<times> int) list \<Rightarrow> exn + pyval" where
  "update_response updated fail_code failed result =
     (if count_positive result ''modified_count'' then Inr (PDict [(''message'', PStr updated)])
      else Inl (HTTPException fail_code failed))"

definition update_entity ::
  "string \<Rightarrow> string \<Rightarrow> string \<Rightarrow> nat \<Rightarrow> string \<Rightarrow> store \<Rightarrow> pyval \<Rightarrow> model \<Rightarrow> (exn + pyval) \<times> store" where
  "update_entity collection_name key_field updated fail_code failed st key m =
     (let m_dict = model_dict_exclude_unset m in
      if m_dict = [] then (Inl (HTTPException 400 ''No data provided to update''), st)
      else (case update_one st collection_name [(key_field, key)] m_dict of
              (result, st') \<Rightarrow> (update_response updated fail_code failed result, st')))"

text \<open>
  \<^verbatim>\<open>
  branch = await db.find_one("Branch", {"branch_id": branch_id})
  if not branch:
      raise HTTPException(status_code=400, detail="Branch not found")
  result = await db.delete_one("Branch", {"branch_id": branch_id})
  if result and result.get("deleted_count", 0) > 0:
      return {"message": "Branch deleted successfully"}
  raise HTTPException(status_code=400, detail="Failed to delete branch")
  \<close>
\<close>

definition delete_response :: "string \<Rightarrow> string \<Rightarrow> (string \<times> int) list \<Rightarrow> exn + pyval" where
  "delete_response deleted failed result =
     (if count_positive result ''deleted_count'' then Inr (PDict [(''message'', PStr deleted)])
      else Inl (HTTPException 400 failed))"

definition delete_entity ::
  "string \<Rightarrow> string \<Rightarrow> nat \<Rightarrow> string \<Rightarrow> string \<Rightarrow> string \<Rightarrow> store \<Rightarrow> pyval \<Rightarrow> (exn + pyval) \<times> store" where
  "delete_entity collection_name key_field nf_code not_found deleted failed st key =
     (case find_one st collection_name [(key_field, key)] of
        (found, st1) \<Rightarrow>
          if \<not> (case found of Some v \<Rightarrow> truthy v | None \<Rightarrow> False)
          then (Inl (HTTPException nf_code not_found), st1)
          else (case delete_one st1 collection_name [(key_field, key)] of
                  (result, st2) \<Rightarrow> (delete_response deleted failed result, st2)))"

text \<open>
  \<^verbatim>\<open>
  branches = await db.db["Branch"].find().to_list(length=200)
  return convert_objectid_to_str(branches)
  \<close>
  This one goes to the driver directly, not through the adapter: what the driver raises
  leaves the handler.
\<close>

definition get_all_entities :: "string \<Rightarrow> store \<Rightarrow> (exn + pyval) \<times> store" where
  "get_all_entities collection_name st =
     (case coll_find_to_list st collection_name 200 of
        (Inl e, st') \<Rightarrow> (Inl e, st')
      | (Inr docs, st') \<Rightarrow> (Inr (convert_objectid_to_str (PList (map PDict docs))), st'))"

subsection \<open>Branch\<close>

definition create_branch :: "store \<Rightarrow> int \<Rightarrow> model \<Rightarrow> (exn + pyval) \<times> store" where
  "create_branch st now branch =
     (case stamp_added ''branch_added'' now branch of
        Inl e \<Rightarrow> (Inl e, st)
      | Inr branch' \<Rightarrow>
          create_entity ''Branch'' ''Branch created successfully'' ''branch_id'' ''branch_id''
            ''Failed to create branch'' st branch')"

definition get_branch :: "store \<Rightarrow> int \<Rightarrow> (exn + pyval) \<times> store" where
  "get_branch st branch_id =
     get_entity ''Branch'' ''branch_id'' ''Branch not found'' st (PInt branch_id)"


definition delete_branch :: "store \<Rightarrow> int \<Rightarrow> (exn + pyval) \<times> store" where
  "delete_branch st branch_id =
     delete_entity ''Branch'' ''branch_id'' 400 ''Branch not found''
       ''Branch deleted successfully'' ''Failed to delete branch'' st (PInt branch_id)"

definition get_all_branches :: "store \<Rightarrow> (exn + pyval) \<times> store" where
  "get_all_branches st = get_all_entities ''Branch'' st"

subsection \<open>User\<close>

definition create_user :: "store \<Rightarrow> model \<Rightarrow> (exn + pyval) \<times> store" where
  "create_user st user =
     create_entity ''userData'' ''User created successfully'' ''user_id'' ''id''
       ''Failed to create user'' st user"

definition get_user :: "store \<Rightarrow> int \<Rightarrow> (exn + pyval) \<times> store" where
  "get_user st user_id = get_entity ''userData'' ''id'' ''User not found'' st (PInt user_id)"


definition delete_user :: "store \<Rightarrow> int \<Rightarrow> (exn + pyval) \<times> store" where
  "delete_user st user_id =
     delete_entity ''userData'' ''id'' 400 ''User not found''
       ''User deleted successfully'' ''Failed to delete user'' st (PInt user_id)"

definition get_all_users :: "store \<Rightarrow> (exn + pyval) \<times> store" where
  "get_all_users st = get_all_entities ''userData'' st"

subsection \<open>Menu item\<close>

definition create_menu_item :: "store \<Rightarrow> model \<Rightarrow> (exn + pyval) \<times> store" where
  "create_menu_item st item =
     create_entity ''menu'' ''Menu item created successfully'' ''item_id'' ''item_id''
       ''Failed to create menu item'' st item"

definition get_menu_item :: "store \<Rightarrow> string \<Rightarrow> (exn + pyval) \<times> store" where
  "get_menu_item st item_id =
     get_entity ''menu'' ''item_id'' ''Menu item not found'' st (PStr item_id)"


definition delete_menu_item :: "store \<Rightarrow> string \<Rightarrow> (exn + pyval) \<times> store" where
  "delete_menu_item st item_id =
     delete_entity ''menu'' ''item_id'' 404 ''Menu item not found''
       ''Menu item deleted successfully'' ''Failed to delete menu item'' st (PStr item_id)"

definition get_all_menu_items :: "store \<Rightarrow> (exn + pyval) \<times> store" where
  "get_all_menu_items st = get_all_entities ''menu'' st"

subsection \<open>Order\<close>

definition create_order :: "store \<Rightarrow> model \<Rightarrow> (exn + pyval) \<times> store" where
  "create_order st order =
     create_entity ''orders'' ''Order created successfully'' ''order_id'' ''order_id''
       ''Failed to create order'' st order"

text \<open>\<open>POST /create-order/\<close>: the body is validated as an \<open>Order\<close>, then handled.\<close>

definition post_create_order ::
  "(string \<Rightarrow> pyval \<Rightarrow> pyval option) \<Rightarrow> store \<Rightarrow> doc \<Rightarrow> (exn + pyval) \<times> store" where
  "post_create_order coerce st payload =
     (case Order_validate coerce payload of
        Inl e \<Rightarrow> (Inl e, st)
      | Inr order \<Rightarrow> create_order st order)"

definition get_order :: "store \<Rightarrow> string \<Rightarrow> (exn + pyval) \<times> store" where
  "get_order st order_id =
     get_entity ''orders'' ''order_id'' ''Order not found'' st (PStr order_id)"


definition delete_order :: "store \<Rightarrow> string \<Rightarrow> (exn + pyval) \<times> store" where
  "delete_order st order_id =
     delete_entity ''orders'' ''order_id'' 404 ''Order not found''
       ''Order deleted successfully'' ''Failed to delete order'' st (PStr order_id)"

definition get_all_orders :: "store \<Rightarrow> (exn + pyval) \<times> store" where
  "get_all_orders st = get_all_entities ''orders'' st"

subsection \<open>Restaurants\<close>

definition create_restaurants :: "store \<Rightarrow> int \<Rightarrow> model \<Rightarrow> (exn + pyval) \<times> store" where
  "create_restaurants st now restaurants =
     (case stamp_added ''res_added'' now restaurants of
        Inl e \<Rightarrow> (Inl e, st)
      | Inr restaurants' \<Rightarrow>
          create_entity ''restaurants'' ''restaurants created successfully'' ''restaurants_id''
            ''restaurants_id'' ''Failed to create restaurants'' st restaurants')"

definition get_restaurants :: "store \<Rightarrow> int \<Rightarrow> (exn + pyval) \<times> store" where
  "get_restaurants st restaurants_id =
     get_entity ''restaurants'' ''restaurants_id'' ''restaurants not found'' st
       (PInt restaurants_id)"


definition delete_restaurants :: "store \<Rightarrow> int \<Rightarrow> (exn + pyval) \<times> store" where
  "delete_restaurants st restaurants_id =
     delete_entity ''restaurants'' ''restaurants_id'' 400 ''restaurants not found''
       ''restaurants deleted successfully'' ''Failed to delete restaurants'' st
       (PInt restaurants_id)"

definition get_all_restaurantss :: "store \<Rightarrow> (exn + pyval) \<times> store" where
  "get_all_restaurantss st = get_all_entities ''restaurants'' st"

subsection \<open>The update endpoints, from the request body\<close>






subsection \<open>What an update endpoint does with a body\<close>


section \<open>Example values\<close>

text \<open>A store with no documents and no faults to come, a Branch document, the instance
  of \<open>Branch\<close> that a request body with these fields gives, and the document as the store
  keeps it.\<close>

definition empty_store :: store where
  "empty_store = \<lparr>colls = (\<lambda>c. []), next_oid = 0, acked = True, faults = [], calls = []\<rparr>"

definition branch_doc :: "int \<Rightarrow> doc" where
  "branch_doc i =
     [(''branch_id'', PInt i), (''branch_name'', PStr ''Branch A''),
      (''branch_email'', PStr ''a@example.org''), (''branch_phone'', PStr ''100''),
      (''branch_website'', PStr ''example.org''), (''branch_desc'', PStr ''first''),
      (''branch_added'', PNone), (''branch_active'', PBool True),
      (''restaurants_id'', PStr ''r1''), (''address_id'', PStr ''a1'')]"

definition branch_model :: "int \<Rightarrow> model" where
  "branch_model i =
     \<lparr>field_values = branch_doc i,
      fields_set = [''branch_id'', ''branch_name'', ''branch_email'', ''branch_phone'',
                    ''branch_website'', ''branch_desc'', ''branch_active'',
                    ''restaurants_id'', ''address_id'']\<rparr>"

definition stored_branch :: "int \<Rightarrow> doc" where
  "stored_branch i = branch_doc i @ [(''_id'', PObjectId (fresh_oid 0))]"

text \<open>The body of an order request that carries a reference field as base64 text
  (\<open>AQID\<close> is the bytes 1, 2, 3).\<close>

definition order_payload :: doc where
  "order_payload =
     [(''order_id'', PStr ''o1''), (''customer'', PDict [(''name'', PStr ''Ann'')]),
      (''order_type'', PStr ''pickup''), (''store'', PDict [(''name'', PStr ''Main'')]),
      (''items'', PList [PDict [(''item_id'', PStr ''m1''), (''quantity'', PInt 2)]]),
      (''total_price'', PFloat 0x4029000000000000), (''payment_method'', PStr ''card''),
      (''order_status'', PStr ''new''), (''order_date'', PDatetime 1700000000000000),
      (''restaurants_id'', PStr ''AQID'')]"







section \<open>Properties of the normalisation layer\<close>

lemma length_b64encode: "length (b64encode b) = 4 * ((length b + 2) div 3)"
proof (induction b rule: b64encode.induct)
  case (4 a b c rest)
  have "(length rest + 5) div 3 = Suc ((length rest + 2) div 3)" by arith
  with 4 show ?case by (simp add: Let_def add.commute)
qed (simp_all add: Let_def)

lemma b64encode_longer: "b \<noteq> [] \<Longrightarrow> length b < length (b64encode b)"
  by (cases b) (simp_all add: length_b64encode)

lemma decode_utf8_length: "decode_utf8 b = Some s \<Longrightarrow> length s = length b"
  by (auto simp: decode_utf8_def split: if_splits)

lemma hex_digit_eq: "hex_digit i = hex_digit j \<Longrightarrow> i mod 16 = j mod 16"
  unfolding hex_digit_def
  by (simp add: nth_eq_iff_index_eq)

lemma hex_byte_inj: "hex_byte a = hex_byte b \<Longrightarrow> a = b"
proof -
  assume h: "hex_byte a = hex_byte b"
  have la: "unat a div 16 < 16"
    using unsigned_less [of a, where ?'a = nat] by simp
  have lb: "unat b div 16 < 16"
    using unsigned_less [of b, where ?'a = nat] by simp
  from h have hi: "hex_digit (unat a div 16) = hex_digit (unat b div 16)"
    and lo: "hex_digit (unat a) = hex_digit (unat b)"
    by (simp_all add: hex_byte_def)
  from hex_digit_eq [OF hi] la lb have d: "unat a div 16 = unat b div 16"
    by simp
  from hex_digit_eq [OF lo] have m: "unat a mod 16 = unat b mod 16" .
  have "unat a = 16 * (unat a div 16) + unat a mod 16" by simp
  also have "\<dots> = 16 * (unat b div 16) + unat b mod 16" using d m by simp
  also have "\<dots> = unat b" by simp
  finally show "a = b" by (simp add: word_unat_eq_iff)
qed

lemma objectid_str_inj: "objectid_str a = objectid_str b \<Longrightarrow> a = b"
proof (induction a arbitrary: b)
  case Nil
  then show ?case by (cases b) (simp_all add: objectid_str_def hex_byte_def)
next
  case (Cons x xs)
  then show ?case
  proof (cases b)
    case Nil
    with Cons.prems show ?thesis by (simp add: objectid_str_def hex_byte_def)
  next
    case (Cons y ys)
    with Cons.prems have e: "hex_byte x @ objectid_str xs = hex_byte y @ objectid_str ys"
      by (simp add: objectid_str_def)
    have "length (hex_byte x) = length (hex_byte y)" by (simp add: hex_byte_def)
    with e have "hex_byte x = hex_byte y" "objectid_str xs = objectid_str ys" by simp_all
    with Cons.IH Cons show ?thesis by (simp add: hex_byte_inj)
  qed
qed

lemma convert_dict_objectid:
  "convert_objectid_to_str (PDict [(k, PObjectId oid)]) = PDict [(k, PStr (objectid_str oid))]"
  by simp

lemma convert_list_objectid:
  "convert_objectid_to_str (PList [PObjectId oid]) = PList [PObjectId oid]"
  by simp

section \<open>Properties of the adapter and of the handlers\<close>

lemma colls_enter [simp]: "colls (enter st operation c) = colls st"
  by (simp add: enter_def)

lemma calls_enter [simp]: "calls (enter st operation c) = calls st @ [(operation, c)]"
  by (simp add: enter_def)

lemma acked_enter [simp]: "acked (enter st operation c) = acked st"
  by (simp add: enter_def)

lemma find_one_fault: "raises st \<Longrightarrow> find_one st c q = (None, enter st ''find_one'' c)"
  by (simp add: find_one_def coll_find_one_def Let_def)

lemma find_one_absent:
  "\<forall>d\<in>set (colls st c). \<not> matches q d \<Longrightarrow> find_one st c q = (None, enter st ''find_one'' c)"
proof -
  assume "\<forall>d\<in>set (colls st c). \<not> matches q d"
  then have "find (matches q) (colls st c) = None"
    by (simp add: find_None_iff)
  then show ?thesis
    by (simp add: find_one_def coll_find_one_def Let_def)
qed


lemma insert_one_fault:
  "raises st \<Longrightarrow> insert_one st c d = (Inl (HTTPException 500 ''Internal Server Error''), enter st ''insert_one'' c)"
  by (simp add: insert_one_def coll_insert_one_def Let_def)














lemma delete_entity_absent:
  "\<forall>d\<in>set (colls st c). \<not> matches [(kf, key)] d \<Longrightarrow>
   delete_entity c kf code nf deleted failed st key =
     (Inl (HTTPException code nf), enter st ''find_one'' c)"
  by (simp add: delete_entity_def find_one_absent)




lemma get_entity_fault:
  "raises st \<Longrightarrow> fst (get_entity c kf nf st key) = Inl (HTTPException 404 nf)"
  by (simp add: get_entity_def find_one_fault)

lemma get_entity_absent:
  "\<forall>d\<in>set (colls st c). \<not> matches [(kf, key)] d \<Longrightarrow> fst (get_entity c kf nf st key) = Inl (HTTPException 404 nf)"
  by (simp add: get_entity_def find_one_absent)

lemma create_entity_fault:
  "raises st \<Longrightarrow> fst (create_entity c created idk ida failed st m) = Inl (HTTPException 500 ''Internal Server Error'')"
  by (simp add: create_entity_def insert_one_fault)

lemma get_all_entities_ok:
  "\<not> raises st \<Longrightarrow> \<exists>ys. fst (get_all_entities c st) = Inr (PList ys) \<and> length ys = min 200 (length (colls st c))"
  by (simp add: get_all_entities_def coll_find_to_list_def Let_def min.commute)

lemma get_all_entities_fault:
  "raises st \<Longrightarrow> fst (get_all_entities c st) = Inl DriverError"
  by (simp add: get_all_entities_def coll_find_to_list_def Let_def)

lemma get_all_entities_cap:
  "fst (get_all_entities c st) = Inr (PList ys) \<Longrightarrow> length ys \<le> 200"
  by (cases "raises st") (auto simp add: get_all_entities_def coll_find_to_list_def Let_def)

subsection \<open>What an update can change\<close>

lemma map_of_dict_set: "map_of (dict_set k v d) k' = (if k' = k then Some v else map_of d k')"
  by (induction d) auto

lemma keys_dict_set_present: "k \<in> fst ` set d \<Longrightarrow> map fst (dict_set k v d) = map fst d"
  by (induction d) auto

lemma map_of_apply_set: "k \<notin> fst ` set u \<Longrightarrow> map_of (apply_set u d) k = map_of d k"
  unfolding apply_set_def
  by (induction u arbitrary: d) (auto simp add: map_of_dict_set)

lemma update_first_length: "length (fst (update_first q u ds)) = length ds"
  by (induction ds) (auto simp add: Let_def split: prod.splits)

lemma update_first_skip:
  "\<not> matches q d \<Longrightarrow> fst (update_first q u (d # ds)) = d # fst (update_first q u ds)"
  by (simp split: prod.splits)

lemma update_first_other_keys:
  "k \<notin> fst ` set u \<Longrightarrow> j < length ds \<Longrightarrow>
   map_of (fst (update_first q u ds) ! j) k = map_of (ds ! j) k"
proof (induction ds arbitrary: j)
  case Nil
  then show ?case by simp
next
  case (Cons d ds)
  show ?case
  proof (cases "matches q d")
    case True
    with Cons.prems show ?thesis
      by (cases j) (simp_all add: Let_def map_of_apply_set)
  next
    case False
    with Cons show ?thesis
      by (cases j) (simp_all add: update_first_skip del: update_first.simps)
  qed
qed

lemma keys_exclude_unset: "fst ` set (model_dict_exclude_unset m) \<subseteq> set (fields_set m)"
  by (auto simp add: model_dict_exclude_unset_def)

lemma update_one_colls:
  "colls (snd (update_one st c q u)) =
     (if raises st then colls st else (colls st)(c := fst (update_first q u (colls st c))))"
  by (simp add: update_one_def coll_update_one_def Let_def split: prod.splits)

lemma update_entity_colls:
  "colls (snd (update_entity c kf updated code failed st key m)) =
     (if model_dict_exclude_unset m = [] \<or> raises st then colls st
      else (colls st)(c := fst (update_first [(kf, key)] (model_dict_exclude_unset m) (colls st c))))"
  using update_one_colls [of st c "[(kf, key)]" "model_dict_exclude_unset m"]
  by (auto simp add: update_entity_def Let_def split: prod.splits)

lemma update_entity_only_set_fields:
  "k \<notin> set (fields_set m) \<Longrightarrow> j < length (colls st c) \<Longrightarrow>
   length (colls (snd (update_entity c kf updated code failed st key m)) c) = length (colls st c)
   \<and> map_of (colls (snd (update_entity c kf updated code failed st key m)) c ! j) k
       = map_of (colls st c ! j) k"
proof -
  assume k: "k \<notin> set (fields_set m)" and j: "j < length (colls st c)"
  from k have "k \<notin> fst ` set (model_dict_exclude_unset m)"
    using keys_exclude_unset [of m] by blast
  with j show ?thesis
    by (simp add: update_entity_colls update_first_length update_first_other_keys)
qed


lemma update_entity_success_nonempty:
  "fst (update_entity c kf updated code failed st key m) = Inr r \<Longrightarrow>
   model_dict_exclude_unset m \<noteq> []"
  by (auto simp add: update_entity_def)

subsection \<open>What an insert does\<close>

lemma raises_no_faults: "faults st = [] \<Longrightarrow> \<not> raises st"
  by (simp add: raises_def)

lemma insert_one_ok:
  "\<not> raises st \<Longrightarrow> map_of d ''_id'' = None \<Longrightarrow>
   insert_one st c d =
     (Inr (InsertOneResult (PObjectId (fresh_oid (next_oid st))) (acked st)),
      st\<lparr>colls := (colls st)(c := colls st c @ [d @ [(''_id'', PObjectId (fresh_oid (next_oid st)))]]),
         next_oid := Suc (next_oid st),
         faults := drop 1 (faults st),
         calls := calls st @ [(''insert_one'', c)]\<rparr>)"
  by (simp add: insert_one_def coll_insert_one_def enter_def Let_def)

lemma create_entity_ok:
  "\<not> raises st \<Longrightarrow> acked st \<Longrightarrow> map_of (field_values m) ''_id'' = None \<Longrightarrow>
   getattr m ida = Inr v \<Longrightarrow>
   create_entity c created idk ida failed st m =
     (Inr (PDict [(''message'', PStr created), (idk, v)]),
      st\<lparr>colls := (colls st)(c := colls st c @ [field_values m @ [(''_id'', PObjectId (fresh_oid (next_oid st)))]]),
         next_oid := Suc (next_oid st),
         faults := drop 1 (faults st),
         calls := calls st @ [(''insert_one'', c)]\<rparr>)"
  by (simp add: create_entity_def model_dict_def insert_one_ok)

lemma is_instance_absent:
  "is_instance decls m \<Longrightarrow> k \<notin> set (map fst decls) \<Longrightarrow> map_of (field_values m) k = None"
proof -
  assume i: "is_instance decls m" and k: "k \<notin> set (map fst decls)"
  from i have "set (map fst (field_values m)) = set (map fst decls)"
    by (simp add: is_instance_def)
  with k have "k \<notin> fst ` set (field_values m)" by simp
  then show ?thesis by (simp add: map_of_eq_None_iff)
qed

lemma is_instance_getattr:
  "is_instance decls m \<Longrightarrow> k \<in> set (map fst decls) \<Longrightarrow> \<exists>v. getattr m k = Inr v"
proof -
  assume i: "is_instance decls m" and k: "k \<in> set (map fst decls)"
  from i have "set (map fst (field_values m)) = set (map fst decls)"
    by (simp add: is_instance_def)
  with k have "k \<in> fst ` set (field_values m)" by simp
  then have "map_of (field_values m) k \<noteq> None" by (simp add: map_of_eq_None_iff)
  then show ?thesis by (auto simp add: getattr_def)
qed

lemma is_instance_setattr:
  "is_instance decls m \<Longrightarrow> k \<in> set (map fst decls) \<Longrightarrow> is_instance decls (setattr m k v)"
proof -
  assume i: "is_instance decls m" and k: "k \<in> set (map fst decls)"
  from i have e: "map fst (field_values m) = map fst decls"
    by (simp add: is_instance_def)
  then have "set (map fst (field_values m)) = set (map fst decls)" by simp
  with k have "k \<in> fst ` set (field_values m)" by simp
  then have "map fst (dict_set k v (field_values m)) = map fst decls"
    using e by (simp add: keys_dict_set_present)
  with i k show ?thesis
    by (simp add: is_instance_def setattr_def)
qed

lemma getattr_setattr_other: "k' \<noteq> k \<Longrightarrow> getattr (setattr m k v) k' = getattr m k'"
  by (simp add: getattr_def setattr_def map_of_dict_set)

lemma stamp_added_instance:
  "is_instance decls m \<Longrightarrow> a \<in> set (map fst decls) \<Longrightarrow>
   \<exists>m'. stamp_added a now m = Inr m' \<and> is_instance decls m'
        \<and> (\<forall>k. k \<noteq> a \<longrightarrow> getattr m' k = getattr m k)"
proof -
  assume i: "is_instance decls m" and a: "a \<in> set (map fst decls)"
  from is_instance_getattr [OF i a] obtain v where v: "getattr m a = Inr v" by blast
  show ?thesis
  proof (cases "truthy v")
    case True
    with v i show ?thesis by (simp add: stamp_added_def)
  next
    case False
    with v is_instance_setattr [OF i a] show ?thesis
      by (simp add: stamp_added_def getattr_setattr_other)
  qed
qed

lemma getattr_map_of: "getattr m k = Inr v \<Longrightarrow> map_of (field_values m) k = Some v"
  by (simp add: getattr_def split: option.splits)

lemma create_branch_ok:
  assumes "\<not> raises st" and "acked st" and "is_instance Branch_fields b"
  shows "\<exists>v d. getattr b ''branch_id'' = Inr v
          \<and> map_of d ''branch_id'' = Some v
          \<and> create_branch st now b =
              (Inr (PDict [(''message'', PStr ''Branch created successfully''), (''branch_id'', v)]),
               st\<lparr>colls := (colls st)(''Branch'' := colls st ''Branch'' @ [d]),
                  next_oid := Suc (next_oid st),
                  faults := drop 1 (faults st),
                  calls := calls st @ [(''insert_one'', ''Branch'')]\<rparr>)"
proof -
  have a: "''branch_added'' \<in> set (map fst Branch_fields)"
    and k: "''branch_id'' \<in> set (map fst Branch_fields)"
    and n: "''_id'' \<notin> set (map fst Branch_fields)"
    by (simp_all add: Branch_fields_def)
  from stamp_added_instance [OF assms(3) a, of now] obtain b'
    where s: "stamp_added ''branch_added'' now b = Inr b'"
      and i: "is_instance Branch_fields b'"
      and g: "getattr b' ''branch_id'' = getattr b ''branch_id''"
    by auto
  from is_instance_getattr [OF assms(3) k] obtain v where v: "getattr b ''branch_id'' = Inr v"
    by blast
  from v g have v': "getattr b' ''branch_id'' = Inr v" by simp
  let ?d = "field_values b' @ [(''_id'', PObjectId (fresh_oid (next_oid st)))]"
  have m: "map_of ?d ''branch_id'' = Some v"
    using getattr_map_of [OF v'] by simp
  have c: "create_branch st now b =
              (Inr (PDict [(''message'', PStr ''Branch created successfully''), (''branch_id'', v)]),
               st\<lparr>colls := (colls st)(''Branch'' := colls st ''Branch'' @ [?d]),
                  next_oid := Suc (next_oid st),
                  faults := drop 1 (faults st),
                  calls := calls st @ [(''insert_one'', ''Branch'')]\<rparr>)"
    by (simp add: create_branch_def s
        create_entity_ok [OF assms(1) assms(2) is_instance_absent [OF i n] v'])
  from v m c show ?thesis by blast
qed

subsection \<open>Validated instances\<close>

lemma validate_fields_instance:
  "validate_fields coerce decls payload = Inr m \<Longrightarrow> is_instance decls m"
proof (induction decls arbitrary: m)
  case Nil
  then show ?case by (auto simp add: is_instance_def)
next
  case (Cons decl decls)
  from Cons.prems obtain m0 where m0: "validate_fields coerce decls payload = Inr m0"
    by (auto split: sum.splits)
  from Cons.IH [OF m0] have i: "is_instance decls m0" .
  from Cons.prems m0 i show ?case
    by (auto simp add: is_instance_def list_all_iff split: option.splits)
qed

lemma base64_field_to_binary_unchanged: "base64_field_to_binary name m = Inr m"
  by (auto simp add: base64_field_to_binary_def model_items_def)

lemma convert_base64_to_binary_unchanged: "convert_base64_to_binary m = Inr m"
  by (simp add: convert_base64_to_binary_def base64_field_to_binary_unchanged)

lemma Order_validate_fields:
  "Order_validate coerce payload =
     validate_fields coerce Order_fields (convert_binary_fields_to_base64 payload)"
  by (simp add: Order_validate_def convert_base64_to_binary_unchanged split: sum.splits)

lemma Order_validate_instance:
  "Order_validate coerce payload = Inr order \<Longrightarrow> is_instance Order_fields order"
  by (simp add: Order_validate_fields validate_fields_instance)

lemma create_entity_colls:
  "\<not> raises st \<Longrightarrow> map_of (field_values m) ''_id'' = None \<Longrightarrow>
   colls (snd (create_entity c created idk ida failed st m)) =
     (colls st)(c := colls st c @ [field_values m @ [(''_id'', PObjectId (fresh_oid (next_oid st)))]])"
  by (simp add: create_entity_def model_dict_def insert_one_ok split: sum.splits)

text \<open>A request body that passes the \<open>Branch\<close> schema has every required field
  set, so the instance an update handler receives from a request never has an empty
  \<open>dict(exclude_unset=True)\<close>; an empty body is refused by the schema.\<close>

lemma validate_fields_required_set:
  "validate_fields coerce decls payload = Inr m \<Longrightarrow> (name, None) \<in> set decls \<Longrightarrow>
   \<exists>v. (name, v) \<in> set (field_values m) \<and> name \<in> set (fields_set m) \<and> name \<in> fst ` set payload"
proof (induction decls arbitrary: m)
  case Nil
  then show ?case by simp
next
  case (Cons decl decls)
  from Cons.prems(1) obtain m0 where m0: "validate_fields coerce decls payload = Inr m0"
    by (auto split: sum.splits)
  show ?case
  proof (cases "decl = (name, None)")
    case True
    with Cons.prems(1) m0 show ?thesis
      by (auto split: option.splits dest: map_of_SomeD intro: rev_image_eqI)
  next
    case False
    with Cons.prems(2) have "(name, None) \<in> set decls" by simp
    from Cons.IH [OF m0 this] obtain v where
      "(name, v) \<in> set (field_values m0)" "name \<in> set (fields_set m0)" "name \<in> fst ` set payload"
      by blast
    with Cons.prems(1) m0 show ?thesis
      by (auto split: option.splits)
  qed
qed

lemma validated_Branch_update_not_empty:
  "validate_fields coerce Branch_fields payload = Inr m \<Longrightarrow> model_dict_exclude_unset m \<noteq> []"
proof -
  assume v: "validate_fields coerce Branch_fields payload = Inr m"
  have "(''branch_id'', None) \<in> set Branch_fields" by (simp add: Branch_fields_def)
  from validate_fields_required_set [OF v this] obtain x where
    "(''branch_id'', x) \<in> set (field_values m)" "''branch_id'' \<in> set (fields_set m)" by blast
  then have "(''branch_id'', x) \<in> set (model_dict_exclude_unset m)"
    by (simp add: model_dict_exclude_unset_def)
  then show ?thesis by auto
qed

lemma empty_body_rejected_by_schema:
  "validate_fields coerce Branch_fields [] = Inl RequestValidationError"
proof (cases "validate_fields coerce Branch_fields []")
  case (Inl e)
  then show ?thesis by (cases e) (auto simp add: Branch_fields_def split: sum.splits)
next
  case (Inr m)
  have "(''branch_id'', None) \<in> set Branch_fields" by (simp add: Branch_fields_def)
  from validate_fields_required_set [OF Inr this] show ?thesis by simp
qed

subsection \<open>An update from a request body\<close>


























section \<open>The claims about the normalisation layer\<close>

lemma char_of_byte_A: "char_of_byte 0x41 = CHR ''A''"
  by (simp add: char_of_byte_def char_of_def bit_Suc bit_0)

text \<open>
  C1, as the specification states it, fails. It says that a byte-sequence scalar is first
  tried as UTF-8 and, when it decodes, is rendered as the decoded text. The single byte
  \<open>0x41\<close> decodes to the text \<open>A\<close>, and the renderer returns its base64 text
  \<open>QQ==\<close>, alone and as a value of a document.
\<close>

theorem bytes_valid_utf8_counterexample:
  "decode_utf8 [0x41] = Some ''A''
   \<and> handle_non_utf8 (PBytes [0x41]) = PStr ''QQ==''
   \<and> handle_non_utf8 (PBytes [0x41]) \<noteq> PStr ''A''
   \<and> convert_objectid_to_str (PDict [(''name'', PBytes [0x41])]) = PDict [(''name'', PStr ''QQ=='')]"
  by (simp add: decode_utf8_def char_of_byte_A b64_char_def b64_alphabet_def)

text \<open>
  C1, amended: for every byte-sequence scalar (\<open>bytes\<close> or \<open>Binary\<close>) that decodes as
  valid UTF-8 text, the renderer returns the base64 text of the bytes, without a decoding
  attempt: alone, as a value of a mapping and as an element of a sequence. That text
  differs from the decoded text whenever the sequence is not empty.
\<close>

theorem bytes_valid_utf8_rendered_base64:
  "decode_utf8 b = Some s \<Longrightarrow>
     handle_non_utf8 (PBytes b) = PStr (b64encode b)
   \<and> handle_non_utf8 (PBinary b) = PStr (b64encode b)
   \<and> convert_objectid_to_str (PBytes b) = PStr (b64encode b)
   \<and> convert_objectid_to_str (PDict [(k, PBytes b)]) = PDict [(k, PStr (b64encode b))]
   \<and> convert_objectid_to_str (PList [PBytes b]) = PList [PStr (b64encode b)]
   \<and> (b \<noteq> [] \<longrightarrow> PStr (b64encode b) \<noteq> PStr s)"
proof -
  assume d: "decode_utf8 b = Some s"
  have "b \<noteq> [] \<longrightarrow> b64encode b \<noteq> s"
    using b64encode_longer [of b] decode_utf8_length [OF d] by auto
  then show ?thesis by simp
qed

theorem bytes_valid_utf8_rendered_base64_witness:
  "decode_utf8 [0x41] = Some ''A''
   \<and> handle_non_utf8 (PBytes [0x41]) = PStr ''QQ==''
   \<and> convert_objectid_to_str (PDict [(''name'', PBytes [0x41])]) = PDict [(''name'', PStr ''QQ=='')]
   \<and> [0x41 :: byte] \<noteq> [] \<and> PStr ''QQ=='' \<noteq> PStr ''A''"
proof -
  have h: "decode_utf8 [0x41] = Some ''A''"
    by (simp add: decode_utf8_def char_of_byte_A)
  show ?thesis
    using h bytes_valid_utf8_rendered_base64 [OF h, of "''name''"] by (simp add: b64_char_def b64_alphabet_def)
qed

text \<open>
  C2: for every byte sequence that is not valid UTF-8 the renderer returns the base64 text
  of the bytes, alone, as a value of a mapping and as an element of a sequence; the
  renderer is a function of the bytes alone, so the same bytes always give the same
  output.
\<close>

theorem bytes_invalid_utf8_rendered_base64:
  "decode_utf8 b = None \<Longrightarrow>
     handle_non_utf8 (PBytes b) = PStr (b64encode b)
   \<and> handle_non_utf8 (PBinary b) = PStr (b64encode b)
   \<and> convert_objectid_to_str (PBytes b) = PStr (b64encode b)
   \<and> convert_objectid_to_str (PDict [(k, PBytes b)]) = PDict [(k, PStr (b64encode b))]
   \<and> convert_objectid_to_str (PList [PBytes b]) = PList [PStr (b64encode b)]
   \<and> (\<forall>b'. b' = b \<longrightarrow> convert_objectid_to_str (PBytes b') = convert_objectid_to_str (PBytes b))"
  by simp

theorem bytes_invalid_utf8_rendered_base64_witness:
  "decode_utf8 [0xFF, 0xFE] = None
   \<and> handle_non_utf8 (PBytes [0xFF, 0xFE]) = PStr ''//4=''
   \<and> convert_objectid_to_str (PDict [(''ref'', PBytes [0xFF, 0xFE])]) = PDict [(''ref'', PStr ''//4='')]"
proof -
  have h: "decode_utf8 [0xFF, 0xFE] = None"
    by (simp add: decode_utf8_def)
  show ?thesis
    using h bytes_invalid_utf8_rendered_base64 [OF h, of "''ref''"] by (simp add: b64_char_def b64_alphabet_def)
qed

text \<open>
  C3 says that an opaque identifier is rendered as lowercase hexadecimal wherever it occurs
  in the tree, also as an element of a sequence. The renderer does so for an identifier
  that is the value of a mapping key; an identifier that is an element of a sequence
  reaches the last branch, which has no case for it, and comes back as it was. The same
  identifier at both places of one document:
\<close>

theorem objectid_in_list_not_rendered:
  "convert_objectid_to_str
     (PDict [(''_id'', PObjectId [0x65, 0x4a, 0x1b, 0x2c, 0x3d, 0x4e, 0x5f, 0x60, 0x71, 0x82, 0x93, 0xa4]),
             (''refs'', PList [PObjectId [0x65, 0x4a, 0x1b, 0x2c, 0x3d, 0x4e, 0x5f, 0x60, 0x71, 0x82, 0x93, 0xa4]])])
   = PDict [(''_id'', PStr ''654a1b2c3d4e5f60718293a4''),
            (''refs'', PList [PObjectId [0x65, 0x4a, 0x1b, 0x2c, 0x3d, 0x4e, 0x5f, 0x60, 0x71, 0x82, 0x93, 0xa4]])]"
  by (simp add: objectid_str_def hex_byte_def hex_digit_def)

section \<open>The claims about the adapter and the endpoints\<close>




text \<open>
  C5: with the store reachable and writes acknowledged, two \<open>create_branch\<close> calls with
  instances of \<open>Branch\<close> that carry the same \<open>branch_id\<close> both answer with the success
  message, and the collection ends with two more documents, both with that
  \<open>branch_id\<close>. For the adapter and every collection: inserting the same document
  (without \<open>_id\<close>) twice succeeds twice and stores it twice, each copy under its own
  fresh \<open>_id\<close>. No lookup precedes the insert.
\<close>

theorem duplicate_inserts_both_succeed:
  "faults st = [] \<Longrightarrow> acked st \<Longrightarrow>
   is_instance Branch_fields b1 \<Longrightarrow> is_instance Branch_fields b2 \<Longrightarrow>
   getattr b1 ''branch_id'' = getattr b2 ''branch_id'' \<Longrightarrow>
   map_of document ''_id'' = None \<Longrightarrow>
     (\<exists>v d1 d2.
        getattr b1 ''branch_id'' = Inr v
      \<and> fst (create_branch st now1 b1)
          = Inr (PDict [(''message'', PStr ''Branch created successfully''), (''branch_id'', v)])
      \<and> fst (create_branch (snd (create_branch st now1 b1)) now2 b2)
          = Inr (PDict [(''message'', PStr ''Branch created successfully''), (''branch_id'', v)])
      \<and> colls (snd (create_branch (snd (create_branch st now1 b1)) now2 b2)) ''Branch''
          = colls st ''Branch'' @ [d1, d2]
      \<and> map_of d1 ''branch_id'' = Some v \<and> map_of d2 ''branch_id'' = Some v)
   \<and> (\<exists>i1 i2.
        fst (insert_one st c document) = Inr (InsertOneResult i1 True)
      \<and> fst (insert_one (snd (insert_one st c document)) c document) = Inr (InsertOneResult i2 True)
      \<and> colls (snd (insert_one (snd (insert_one st c document)) c document)) c
          = colls st c @ [document @ [(''_id'', i1)], document @ [(''_id'', i2)]])"
proof -
  assume f: "faults st = []" and a: "acked st"
    and b1: "is_instance Branch_fields b1" and b2: "is_instance Branch_fields b2"
    and same: "getattr b1 ''branch_id'' = getattr b2 ''branch_id''"
    and noid: "map_of document ''_id'' = None"
  have r: "\<not> raises st" using f by (rule raises_no_faults)
  define st1 where "st1 = (\<lambda>d. st\<lparr>colls := (colls st)(''Branch'' := colls st ''Branch'' @ [d]),
                  next_oid := Suc (next_oid st),
                  faults := drop 1 (faults st),
                  calls := calls st @ [(''insert_one'', ''Branch'')]\<rparr>)"
  from create_branch_ok [OF r a b1, of now1] obtain v d1 where
    v: "getattr b1 ''branch_id'' = Inr v" and d1: "map_of d1 ''branch_id'' = Some v"
    and c1: "create_branch st now1 b1 =
              (Inr (PDict [(''message'', PStr ''Branch created successfully''), (''branch_id'', v)]),
               st1 d1)"
    unfolding st1_def by blast
  have r1: "\<not> raises (st1 d1)" using f by (simp add: raises_def st1_def)
  have a1: "acked (st1 d1)" using a by (simp add: st1_def)
  have k1: "colls (st1 d1) ''Branch'' = colls st ''Branch'' @ [d1]" by (simp add: st1_def)
  from create_branch_ok [OF r1 a1 b2, of now2] obtain v2 d2 where
    v2: "getattr b2 ''branch_id'' = Inr v2" and d2: "map_of d2 ''branch_id'' = Some v2"
    and c2: "create_branch (st1 d1) now2 b2 =
              (Inr (PDict [(''message'', PStr ''Branch created successfully''), (''branch_id'', v2)]),
               (st1 d1)\<lparr>colls := (colls (st1 d1))(''Branch'' := colls (st1 d1) ''Branch'' @ [d2]),
                  next_oid := Suc (next_oid (st1 d1)),
                  faults := drop 1 (faults (st1 d1)),
                  calls := calls (st1 d1) @ [(''insert_one'', ''Branch'')]\<rparr>)"
    by blast
  from v v2 same have e: "v2 = v" by simp
  have handler: "\<exists>v d1 d2.
        getattr b1 ''branch_id'' = Inr v
      \<and> fst (create_branch st now1 b1)
          = Inr (PDict [(''message'', PStr ''Branch created successfully''), (''branch_id'', v)])
      \<and> fst (create_branch (snd (create_branch st now1 b1)) now2 b2)
          = Inr (PDict [(''message'', PStr ''Branch created successfully''), (''branch_id'', v)])
      \<and> colls (snd (create_branch (snd (create_branch st now1 b1)) now2 b2)) ''Branch''
          = colls st ''Branch'' @ [d1, d2]
      \<and> map_of d1 ''branch_id'' = Some v \<and> map_of d2 ''branch_id'' = Some v"
    using v d1 d2 e by (intro exI [of _ v] exI [of _ d1] exI [of _ d2]) (simp add: c1 c2 k1)
  define i1 where "i1 = PObjectId (fresh_oid (next_oid st))"
  define sa where "sa = st\<lparr>colls := (colls st)(c := colls st c @ [document @ [(''_id'', i1)]]),
         next_oid := Suc (next_oid st),
         faults := drop 1 (faults st),
         calls := calls st @ [(''insert_one'', c)]\<rparr>"
  have ia: "insert_one st c document = (Inr (InsertOneResult i1 (acked st)), sa)"
    unfolding i1_def sa_def by (rule insert_one_ok [OF r noid])
  have ra: "\<not> raises sa" using f by (simp add: raises_def sa_def)
  have ka: "colls sa c = colls st c @ [document @ [(''_id'', i1)]]" "acked sa"
    using a by (simp_all add: sa_def)
  have adapter: "\<exists>i1 i2.
        fst (insert_one st c document) = Inr (InsertOneResult i1 True)
      \<and> fst (insert_one (snd (insert_one st c document)) c document) = Inr (InsertOneResult i2 True)
      \<and> colls (snd (insert_one (snd (insert_one st c document)) c document)) c
          = colls st c @ [document @ [(''_id'', i1)], document @ [(''_id'', i2)]]"
    using a ka by (intro exI [of _ i1] exI [of _ "PObjectId (fresh_oid (next_oid sa))"])
      (simp add: ia insert_one_ok [OF ra noid])
  from handler adapter show ?thesis by blast
qed

theorem duplicate_inserts_both_succeed_witness:
  "faults empty_store = [] \<and> acked empty_store
   \<and> is_instance Branch_fields (branch_model 1)
   \<and> map_of (branch_doc 1) ''_id'' = None
   \<and> (\<exists>d1 d2.
        fst (create_branch empty_store 10 (branch_model 1))
          = Inr (PDict [(''message'', PStr ''Branch created successfully''), (''branch_id'', PInt 1)])
      \<and> fst (create_branch (snd (create_branch empty_store 10 (branch_model 1))) 20 (branch_model 1))
          = Inr (PDict [(''message'', PStr ''Branch created successfully''), (''branch_id'', PInt 1)])
      \<and> colls (snd (create_branch (snd (create_branch empty_store 10 (branch_model 1))) 20
                       (branch_model 1))) ''Branch'' = [d1, d2]
      \<and> map_of d1 ''branch_id'' = Some (PInt 1) \<and> map_of d2 ''branch_id'' = Some (PInt 1))"
proof -
  have f: "faults empty_store = []" and a: "acked empty_store"
    by (simp_all add: empty_store_def)
  have i: "is_instance Branch_fields (branch_model 1)"
    by (simp add: is_instance_def Branch_fields_def branch_model_def branch_doc_def)
  have n: "map_of (branch_doc 1) ''_id'' = None"
    by (simp add: branch_doc_def)
  have g: "getattr (branch_model 1) ''branch_id'' = Inr (PInt 1)"
    by (simp add: getattr_def branch_model_def branch_doc_def)
  have e: "colls empty_store ''Branch'' = []"
    by (simp add: empty_store_def)
  show ?thesis
    using duplicate_inserts_both_succeed [OF f a i i refl n, of 10 20 "''Branch''"]
    by (simp add: f a i n g e)
qed

text \<open>
  C6: every list-all endpoint returns at most 200 documents; when the driver does not
  fail it returns the first 200 of the collection or all of them if there are fewer, so a
  collection of 250 documents gives exactly 200.
\<close>

theorem list_all_capped_at_200:
  "\<forall>(f, c)\<in>set [(get_all_branches, ''Branch''), (get_all_users, ''userData''),
                   (get_all_menu_items, ''menu''), (get_all_orders, ''orders''),
                   (get_all_restaurantss, ''restaurants'')].
     (\<forall>ys. fst (f st) = Inr (PList ys) \<longrightarrow> length ys \<le> 200)
     \<and> (\<not> raises st \<longrightarrow>
          (\<exists>ys. fst (f st) = Inr (PList ys) \<and> length ys = min 200 (length (colls st c))))
     \<and> (\<not> raises st \<and> length (colls st c) = 250 \<longrightarrow>
          (\<exists>ys. fst (f st) = Inr (PList ys) \<and> length ys = 200))"
proof -
  have g: "(\<forall>ys. fst (get_all_entities c st) = Inr (PList ys) \<longrightarrow> length ys \<le> 200)
     \<and> (\<not> raises st \<longrightarrow>
          (\<exists>ys. fst (get_all_entities c st) = Inr (PList ys) \<and> length ys = min 200 (length (colls st c))))
     \<and> (\<not> raises st \<and> length (colls st c) = 250 \<longrightarrow>
          (\<exists>ys. fst (get_all_entities c st) = Inr (PList ys) \<and> length ys = 200))" for c
    using get_all_entities_ok [of st c] get_all_entities_cap [of c st] by auto
  show ?thesis
    using g [of "''Branch''"] g [of "''userData''"] g [of "''menu''"] g [of "''orders''"]
      g [of "''restaurants''"]
    by (simp add: get_all_branches_def get_all_users_def get_all_menu_items_def
        get_all_orders_def get_all_restaurantss_def)
qed

theorem list_all_capped_at_200_witness:
  "\<not> raises (empty_store\<lparr>colls := (\<lambda>c. replicate 250 (stored_branch 1))\<rparr>)
   \<and> length (colls (empty_store\<lparr>colls := (\<lambda>c. replicate 250 (stored_branch 1))\<rparr>) ''Branch'') = 250
   \<and> (\<exists>ys. fst (get_all_branches (empty_store\<lparr>colls := (\<lambda>c. replicate 250 (stored_branch 1))\<rparr>))
             = Inr (PList ys) \<and> length ys = 200)"
proof -
  let ?st = "empty_store\<lparr>colls := (\<lambda>c. replicate 250 (stored_branch 1))\<rparr>"
  have h: "\<not> raises ?st"
    by (simp add: raises_def empty_store_def)
  show ?thesis
    using h list_all_capped_at_200 [of ?st]
    by simp
qed

text \<open>
  C7: a delete request whose key matches no document of the collection is answered by the
  not-found error of its endpoint, never by a success. The existence check is the only
  operation sent to the driver: the collections are as before and no \<open>delete_one\<close> is
  issued, so no deleted count is reported at all.
\<close>

theorem delete_absent_key_not_found:
  "((\<forall>d\<in>set (colls st ''Branch''). \<not> matches [(''branch_id'', PInt i)] d) \<longrightarrow>
      delete_branch st i =
        (Inl (HTTPException 400 ''Branch not found''),
         st\<lparr>faults := drop 1 (faults st), calls := calls st @ [(''find_one'', ''Branch'')]\<rparr>))
   \<and> ((\<forall>d\<in>set (colls st ''userData''). \<not> matches [(''id'', PInt i)] d) \<longrightarrow>
      delete_user st i =
        (Inl (HTTPException 400 ''User not found''),
         st\<lparr>faults := drop 1 (faults st), calls := calls st @ [(''find_one'', ''userData'')]\<rparr>))
   \<and> ((\<forall>d\<in>set (colls st ''menu''). \<not> matches [(''item_id'', PStr s)] d) \<longrightarrow>
      delete_menu_item st s =
        (Inl (HTTPException 404 ''Menu item not found''),
         st\<lparr>faults := drop 1 (faults st), calls := calls st @ [(''find_one'', ''menu'')]\<rparr>))
   \<and> ((\<forall>d\<in>set (colls st ''orders''). \<not> matches [(''order_id'', PStr s)] d) \<longrightarrow>
      delete_order st s =
        (Inl (HTTPException 404 ''Order not found''),
         st\<lparr>faults := drop 1 (faults st), calls := calls st @ [(''find_one'', ''orders'')]\<rparr>))
   \<and> ((\<forall>d\<in>set (colls st ''restaurants''). \<not> matches [(''restaurants_id'', PInt i)] d) \<longrightarrow>
      delete_restaurants st i =
        (Inl (HTTPException 400 ''restaurants not found''),
         st\<lparr>faults := drop 1 (faults st), calls := calls st @ [(''find_one'', ''restaurants'')]\<rparr>))"
  by (simp add: delete_branch_def delete_user_def delete_menu_item_def delete_order_def
      delete_restaurants_def delete_entity_absent enter_def)

theorem delete_absent_key_not_found_witness:
  "list_all (\<lambda>d. \<not> matches [(''branch_id'', PInt 2)] d)
     (colls (empty_store\<lparr>colls := (\<lambda>c. [stored_branch 1])\<rparr>) ''Branch'')
   \<and> list_all (\<lambda>d. \<not> matches [(''id'', PInt 2)] d)
     (colls (empty_store\<lparr>colls := (\<lambda>c. [stored_branch 1])\<rparr>) ''userData'')
   \<and> list_all (\<lambda>d. \<not> matches [(''item_id'', PStr ''m2'')] d)
     (colls (empty_store\<lparr>colls := (\<lambda>c. [stored_branch 1])\<rparr>) ''menu'')
   \<and> list_all (\<lambda>d. \<not> matches [(''order_id'', PStr ''m2'')] d)
     (colls (empty_store\<lparr>colls := (\<lambda>c. [stored_branch 1])\<rparr>) ''orders'')
   \<and> list_all (\<lambda>d. \<not> matches [(''restaurants_id'', PInt 2)] d)
     (colls (empty_store\<lparr>colls := (\<lambda>c. [stored_branch 1])\<rparr>) ''restaurants'')
   \<and> fst (delete_branch (empty_store\<lparr>colls := (\<lambda>c. [stored_branch 1])\<rparr>) 2)
       = Inl (HTTPException 400 ''Branch not found'')
   \<and> colls (snd (delete_branch (empty_store\<lparr>colls := (\<lambda>c. [stored_branch 1])\<rparr>) 2)) ''Branch''
       = [stored_branch 1]
   \<and> calls (snd (delete_branch (empty_store\<lparr>colls := (\<lambda>c. [stored_branch 1])\<rparr>) 2))
       = [(''find_one'', ''Branch'')]
   \<and> fst (delete_menu_item (empty_store\<lparr>colls := (\<lambda>c. [stored_branch 1])\<rparr>) ''m2'')
       = Inl (HTTPException 404 ''Menu item not found'')"
proof -
  let ?st = "empty_store\<lparr>colls := (\<lambda>c. [stored_branch 1])\<rparr>"
  have h: "\<not> matches [(k, PInt 2)] (stored_branch 1)" "\<not> matches [(k, PStr ''m2'')] (stored_branch 1)"
    for k
    by (simp_all add: matches_def stored_branch_def branch_doc_def)
  show ?thesis
    using delete_absent_key_not_found [of ?st 2 "''m2''"]
    by (simp add: h empty_store_def)
qed

text \<open>
  C8 says that a reference field of an Order payload that arrives as base64 text is stored
  as the decoded bytes. The validator that decodes is there, but \<open>Order\<close> declares
  neither \<open>restaurants_id\<close> nor \<open>address_id\<close>, so the validated instance has no such
  field, the validator finds nothing to convert, and \<open>order.dict()\<close>, which is what is
  stored, holds the nine declared fields only: whenever the body validates and the driver
  does not fail, the stored document has no reference field at all.
\<close>

theorem order_reference_fields_dropped:
  "Order_validate coerce payload = Inr order \<Longrightarrow> \<not> raises st \<Longrightarrow>
   \<exists>d. colls (snd (post_create_order coerce st payload)) ''orders'' = colls st ''orders'' @ [d]
      \<and> map fst d = [''order_id'', ''customer'', ''order_type'', ''store'', ''items'',
                     ''total_price'', ''payment_method'', ''order_status'', ''order_date'',
                     ''_id'']
      \<and> map_of d ''restaurants_id'' = None \<and> map_of d ''address_id'' = None"
proof -
  assume v: "Order_validate coerce payload = Inr order" and r: "\<not> raises st"
  let ?d = "field_values order @ [(''_id'', PObjectId (fresh_oid (next_oid st)))]"
  from Order_validate_instance [OF v] have i: "is_instance Order_fields order" .
  have n: "''_id'' \<notin> set (map fst Order_fields)"
    "''restaurants_id'' \<notin> set (map fst Order_fields)"
    "''address_id'' \<notin> set (map fst Order_fields)"
    by (simp_all add: Order_fields_def)
  from i have k: "map fst (field_values order) = map fst Order_fields"
    by (simp add: is_instance_def)
  have c: "colls (snd (post_create_order coerce st payload)) ''orders'' = colls st ''orders'' @ [?d]"
    by (simp add: post_create_order_def v create_order_def
        create_entity_colls [OF r is_instance_absent [OF i n(1)]])
  have f: "map fst ?d = [''order_id'', ''customer'', ''order_type'', ''store'', ''items'',
                     ''total_price'', ''payment_method'', ''order_status'', ''order_date'',
                     ''_id'']"
    using k by (simp add: Order_fields_def)
  have a: "map_of ?d ''restaurants_id'' = None" "map_of ?d ''address_id'' = None"
    using is_instance_absent [OF i n(2)] is_instance_absent [OF i n(3)] by simp_all
  show ?thesis
    by (intro exI [of _ ?d] conjI) (rule c, rule f, rule a(1), rule a(2))
qed

theorem order_reference_fields_dropped_witness:
  "map_of order_payload ''restaurants_id'' = Some (PStr ''AQID'')
   \<and> b64decode ''AQID'' = Some [1, 2, 3]
   \<and> Order_validate (\<lambda>name v. Some v) order_payload
       = Inr \<lparr>field_values = take 9 order_payload, fields_set = map fst (take 9 order_payload)\<rparr>
   \<and> \<not> raises empty_store
   \<and> fst (post_create_order (\<lambda>name v. Some v) empty_store order_payload)
       = Inr (PDict [(''message'', PStr ''Order created successfully''), (''order_id'', PStr ''o1'')])
   \<and> colls (snd (post_create_order (\<lambda>name v. Some v) empty_store order_payload)) ''orders''
       = [take 9 order_payload @ [(''_id'', PObjectId (fresh_oid 0))]]
   \<and> map_of (take 9 order_payload @ [(''_id'', PObjectId (fresh_oid 0))]) ''restaurants_id'' = None"
proof -
  have p: "map_of order_payload ''restaurants_id'' = Some (PStr ''AQID'')"
    by (simp add: order_payload_def)
  have b: "b64decode ''AQID'' = Some [1, 2, 3]"
    by (simp add: b64decode_def b64_value_def)
  have c: "convert_binary_fields_to_base64 order_payload = order_payload"
    by (simp add: convert_binary_fields_to_base64_def binary_field_to_base64_def order_payload_def)
  have f: "validate_fields (\<lambda>name v. Some v) Order_fields order_payload
       = Inr \<lparr>field_values = take 9 order_payload, fields_set = map fst (take 9 order_payload)\<rparr>"
    by (simp add: Order_fields_def order_payload_def)
  have v: "Order_validate (\<lambda>name v. Some v) order_payload
       = Inr \<lparr>field_values = take 9 order_payload, fields_set = map fst (take 9 order_payload)\<rparr>"
    unfolding Order_validate_fields c f ..
  have r: "\<not> raises empty_store"
    by (simp add: raises_def empty_store_def)
  have n: "map_of (take 9 order_payload) ''_id'' = None"
    "getattr \<lparr>field_values = take 9 order_payload, fields_set = map fst (take 9 order_payload)\<rparr>
       ''order_id'' = Inr (PStr ''o1'')"
    by (simp_all add: order_payload_def getattr_def)
  have a: "acked empty_store" and o: "next_oid empty_store = 0" and e: "colls empty_store ''orders'' = []"
    by (simp_all add: empty_store_def)
  have s: "post_create_order (\<lambda>name v. Some v) empty_store order_payload
      = (Inr (PDict [(''message'', PStr ''Order created successfully''), (''order_id'', PStr ''o1'')]),
         empty_store\<lparr>colls := (colls empty_store)(''orders'' := colls empty_store ''orders'' @
                 [take 9 order_payload @ [(''_id'', PObjectId (fresh_oid (next_oid empty_store)))]]),
            next_oid := Suc (next_oid empty_store),
            faults := drop 1 (faults empty_store),
            calls := calls empty_store @ [(''insert_one'', ''orders'')]\<rparr>)"
    using create_entity_ok [OF r a, of _ "''order_id''" "PStr ''o1''" "''orders''"
        "''Order created successfully''" "''order_id''" "''Failed to create order''"] n
    by (simp add: post_create_order_def v create_order_def)
  have m: "map_of (take 9 order_payload @ [(''_id'', PObjectId (fresh_oid 0))]) ''restaurants_id'' = None"
    by (simp add: order_payload_def)
  show ?thesis
    using order_reference_fields_dropped [OF v r]
    by (simp add: p b v r s o e m)
qed

text \<open>
  C9: when the driver fails, \<open>find_one\<close> of the adapter returns the absent result
  \<open>None\<close>, the same as for a query that matches nothing, so the caller (here
  \<open>get_branch\<close>, which answers 404) cannot tell the two apart; \<open>insert_one\<close> raises
  the internal error 500, which the create endpoints pass on.
\<close>

theorem storage_fault_asymmetry:
  "raises st \<Longrightarrow> \<not> raises st0 \<Longrightarrow> \<forall>d\<in>set (colls st0 c). \<not> matches q d \<Longrightarrow>
     fst (find_one st c q) = None
   \<and> fst (find_one st0 c q) = None
   \<and> fst (find_one st c q) = fst (find_one st0 c q)
   \<and> fst (get_branch st i) = Inl (HTTPException 404 ''Branch not found'')
   \<and> fst (insert_one st c document) = Inl (HTTPException 500 ''Internal Server Error'')
   \<and> fst (create_user st m) = Inl (HTTPException 500 ''Internal Server Error'')
   \<and> fst (create_menu_item st m) = Inl (HTTPException 500 ''Internal Server Error'')
   \<and> fst (create_order st m) = Inl (HTTPException 500 ''Internal Server Error'')"
  by (simp add: find_one_fault find_one_absent insert_one_fault get_branch_def get_entity_fault
      create_user_def create_menu_item_def create_order_def create_entity_fault)

theorem storage_fault_asymmetry_witness:
  "raises (empty_store\<lparr>faults := [True]\<rparr>) \<and> \<not> raises empty_store
   \<and> list_all (\<lambda>d. \<not> matches [(''branch_id'', PInt 1)] d) (colls empty_store ''Branch'')
   \<and> fst (find_one (empty_store\<lparr>faults := [True]\<rparr>) ''Branch'' [(''branch_id'', PInt 1)]) = None
   \<and> fst (find_one empty_store ''Branch'' [(''branch_id'', PInt 1)]) = None
   \<and> fst (insert_one (empty_store\<lparr>faults := [True]\<rparr>) ''Branch'' (branch_doc 1))
       = Inl (HTTPException 500 ''Internal Server Error'')"
proof -
  have h1: "raises (empty_store\<lparr>faults := [True]\<rparr>)"
    by (simp add: raises_def)
  have h2: "\<not> raises empty_store"
    by (simp add: raises_def empty_store_def)
  have h3: "\<forall>d\<in>set (colls empty_store ''Branch''). \<not> matches [(''branch_id'', PInt 1)] d"
    by (simp add: empty_store_def)
  have h3l: "list_all (\<lambda>d. \<not> matches [(''branch_id'', PInt 1)] d) (colls empty_store ''Branch'')"
    by (simp add: empty_store_def)
  show ?thesis
    using h1 h2 h3l storage_fault_asymmetry [OF h1 h2 h3, of 1 "branch_doc 1" "branch_model 1"]
    by simp
qed



end
